theory Spec2Isabelle
  imports Main "HOL-Library.Sublist"
begin

section \<open>The MKV format-profile scanner (mediainfo_format_profile.py)\<close>

text \<open>
  The script walks a directory for \<^verbatim>\<open>.mkv\<close> files, asks the \<^verbatim>\<open>mediainfo\<close> tool for the
  format profile of each one in a pool of worker processes, and reports the files whose
  profile is one of four fixed strings.  Everything the script asks of the outside world
  (the file system, the external tool, the signal that may arrive while it waits) is a
  field of the record \<open>world\<close>; every function of the script becomes a function of the
  world and of its Python arguments.  Exceptions are values: a function that can raise
  returns \<open>exn + 'a\<close>, with \<open>Inl\<close> the exception that leaves it.
\<close>

subsection \<open>Strings\<close>

text \<open>
  A Python \<^verbatim>\<open>str\<close> is a \<open>string\<close>; a character stands for the code point of the same
  number (the profile descriptors are ASCII).  \<^verbatim>\<open>str.strip()\<close> removes, at both ends, the
  characters for which \<^verbatim>\<open>str.isspace\<close> holds: below 256 these are the code points
  9 to 13, 28 to 32, 133 and 160.
\<close>

definition isspace :: "char \<Rightarrow> bool" where
  "isspace c = ((of_char c :: nat) \<in> set [9, 10, 11, 12, 13, 28, 29, 30, 31, 32, 133, 160])"

definition strip :: "string \<Rightarrow> string" where
  "strip s = rev (dropWhile isspace (rev (dropWhile isspace s)))"

text \<open>The apostrophe and the line feed of the script's messages.\<close>

definition apostrophe :: char where
  "apostrophe = CHR 0x27"

definition newline :: char where
  "newline = CHR 0x0A"

text \<open>\<^verbatim>\<open>str(n)\<close> for an integer, as the f-strings of the report format it.\<close>

fun str_nat :: "nat \<Rightarrow> string" where
  "str_nat n =
     (if n < 10 then [''0123456789'' ! n]
      else str_nat (n div 10) @ [''0123456789'' ! (n mod 10)])"

definition str_int :: "int \<Rightarrow> string" where
  "str_int i = (if i < 0 then CHR ''-'' # str_nat (nat (- i)) else str_nat (nat i))"

subsection \<open>Exceptions and the outside world\<close>

text \<open>
  The exception classes the script names or can meet.  \<open>TimeoutExpired\<close> and
  \<open>CalledProcessError\<close> derive from \<open>SubprocessError\<close>; \<open>FileNotFoundError\<close> and
  \<open>PermissionError\<close> derive from \<open>OSError\<close>; \<open>UnicodeDecodeError\<close> derives from
  \<open>ValueError\<close>; \<open>PoolTimeoutError\<close> is \<^verbatim>\<open>multiprocessing.TimeoutError\<close>.
\<close>

datatype exn =
    SubprocessError | TimeoutExpired | CalledProcessError
  | OSError | FileNotFoundError | PermissionError
  | ValueError | UnicodeDecodeError
  | PoolTimeoutError
  | KeyboardInterrupt

fun superclass :: "exn \<Rightarrow> exn option" where
  "superclass TimeoutExpired = Some SubprocessError"
| "superclass CalledProcessError = Some SubprocessError"
| "superclass FileNotFoundError = Some OSError"
| "superclass PermissionError = Some OSError"
| "superclass UnicodeDecodeError = Some ValueError"
| "superclass _ = None"

text \<open>\<open>isinstance e c\<close>: the class of the raised \<open>e\<close> is \<open>c\<close> or derives from it.\<close>

definition isinstance :: "exn \<Rightarrow> exn \<Rightarrow> bool" where
  "isinstance e c = (e = c \<or> superclass e = Some c)"

text \<open>\<^verbatim>\<open>except (c1, c2, ...)\<close> catches \<open>e\<close> when it is an instance of one of the classes.\<close>

definition caught_by :: "exn list \<Rightarrow> exn \<Rightarrow> bool" where
  "caught_by classes e = list_ex (isinstance e) classes"

text \<open>
  What one call of \<^verbatim>\<open>subprocess.run\<close> meets: the child ran to its end, with a return
  code and the text it wrote, or the call raised (the executable is not there, the
  time bound passed, a mocked failure).
\<close>

datatype process_outcome = Completed int string | Raised exn

text \<open>What the coordinating process meets while it waits for the pool.\<close>

datatype wait_outcome = AllDone | Interrupted | WaitExpired

record world =
  is_dir :: "string \<Rightarrow> bool"
  access_r :: "string \<Rightarrow> bool"
  cpu_count :: int
  rglob_mkv :: "string \<Rightarrow> exn + string list"
  mediainfo_version :: process_outcome
  mediainfo_inform :: "string \<Rightarrow> process_outcome"
  pool_wait :: wait_outcome
  tests_successful :: bool
  test_report :: "string list"
  help_text :: string

text \<open>
  \<^verbatim>\<open>subprocess.run(..., check=c)\<close>: the completed process as (return code, stdout), or
  the exception; with \<^verbatim>\<open>check=True\<close> a non-zero return code raises
  \<open>CalledProcessError\<close>.
\<close>

definition subprocess_run :: "process_outcome \<Rightarrow> bool \<Rightarrow> exn + (int \<times> string)" where
  "subprocess_run oc check =
     (case oc of
        Raised e \<Rightarrow> Inl e
      | Completed returncode out \<Rightarrow>
          if check \<and> returncode \<noteq> 0 then Inl CalledProcessError
          else Inr (returncode, out))"

subsection \<open>The target profiles, the extractor and the classifier\<close>

definition TARGET_PROFILES :: "string list" where
  "TARGET_PROFILES =
     [''Main 10@L5.1@High'', ''Main 10@L5@High'', ''Main 10@L5.2@High'', ''High 10@L5'']"

text \<open>
  \<^verbatim>\<open>get_format_profile\<close>: the call with \<^verbatim>\<open>timeout=30\<close> and no \<^verbatim>\<open>check\<close>; a zero return
  code gives the stripped output, or None when that is empty; the two named exception
  classes are swallowed and fall through to \<^verbatim>\<open>return None\<close>; any other exception leaves
  the function.
\<close>

definition get_format_profile :: "world \<Rightarrow> string \<Rightarrow> exn + string option" where
  "get_format_profile w file_path =
     (case subprocess_run (mediainfo_inform w file_path) False of
        Inr (returncode, out) \<Rightarrow>
          if returncode = 0 then
            (let profile = strip out in if profile \<noteq> [] then Inr (Some profile) else Inr None)
          else Inr None
      | Inl e \<Rightarrow>
          if caught_by [TimeoutExpired, SubprocessError] e then Inr None else Inl e)"

text \<open>
  \<^verbatim>\<open>process_file\<close> returns the lines it printed together with its value.  The call of
  the extractor comes before every print, so an exception leaves with nothing printed.
\<close>

definition process_file ::
  "world \<Rightarrow> string \<times> bool \<Rightarrow> exn + (string list \<times> (string \<times> string) option)" where
  "process_file w args =
     (case args of (file_path, verbose) \<Rightarrow>
        (case get_format_profile w file_path of
           Inl e \<Rightarrow> Inl e
         | Inr None \<Rightarrow>
             Inr (if verbose
                  then [''SKIP: '' @ file_path @ '' (no video track or cannot read)'']
                  else [],
                  None)
         | Inr (Some profile) \<Rightarrow>
             Inr (if verbose
                  then [''Checking: '' @ file_path,
                        ''    Profile: '' @ [apostrophe] @ profile @ [apostrophe]]
                  else [],
                  if profile \<in> set TARGET_PROFILES then Some (file_path, profile)
                  else None)))"

text \<open>The value \<^verbatim>\<open>process_file\<close> returns, without what it printed.\<close>

definition returned :: "exn + ('o \<times> 'a) \<Rightarrow> exn + 'a" where
  "returned r = map_sum id snd r"

subsection \<open>What a run leaves behind\<close>

text \<open>
  A run of the coordinating process is described by what it printed to the two streams
  (one list entry for each \<^verbatim>\<open>print\<close>), the worker pools it created (the number of
  processes asked for and the tasks handed over), and how it ended.  The workers write
  to the same standard output while the coordinator waits; in which order their lines
  reach the terminal is the scheduler's choice, so they are kept apart, task by task,
  in \<open>diag\<close> when every task returned (what abandoned workers printed before an
  interrupt or a failure is not recorded).
\<close>

datatype completion = Returned | Exit int | Uncaught exn

record outcome =
  stdout :: "string list"
  stderr :: "string list"
  pools :: "(int \<times> (string \<times> bool) list) list"
  diag :: "string list list"
  completion :: completion

definition silent :: outcome where
  "silent = \<lparr>stdout = [], stderr = [], pools = [], diag = [], completion = Returned\<rparr>"

text \<open>
  The status of the process: 0 after a normal return, the argument of \<^verbatim>\<open>sys.exit\<close>
  otherwise.  After an uncaught exception the interpreter decides, not the script.
\<close>

fun exit_status :: "completion \<Rightarrow> int option" where
  "exit_status Returned = Some 0"
| "exit_status (Exit n) = Some n"
| "exit_status (Uncaught e) = None"

text \<open>Statement after statement: the second runs only when the first returned.\<close>

definition and_then :: "outcome \<Rightarrow> outcome \<Rightarrow> outcome" where
  "and_then a b =
     (case completion a of
        Returned \<Rightarrow>
          \<lparr>stdout = stdout a @ stdout b, stderr = stderr a @ stderr b,
           pools = pools a @ pools b, diag = diag a @ diag b, completion = completion b\<rparr>
      | _ \<Rightarrow> a)"

subsection \<open>The precondition check\<close>

definition check_mediainfo :: "world \<Rightarrow> outcome" where
  "check_mediainfo w =
     (case subprocess_run (mediainfo_version w) True of
        Inr _ \<Rightarrow> silent
      | Inl e \<Rightarrow>
          if caught_by [CalledProcessError, FileNotFoundError] e
          then silent\<lparr>stderr := [''Error: mediainfo command not found. Please install MediaInfo.''],
                      completion := Exit 1\<rparr>
          else silent\<lparr>completion := Uncaught e\<rparr>)"

subsection \<open>The worker pool\<close>

text \<open>
  What a process does when SIGINT arrives.  A worker starts with Python's default
  handler, which raises \<open>KeyboardInterrupt\<close> in it; \<^verbatim>\<open>init_worker\<close>, the pool's
  initializer, replaces that by \<^verbatim>\<open>SIG_IGN\<close>.
\<close>

datatype sigint_action = DefaultIntHandler | SIG_IGN

definition init_worker :: "sigint_action \<Rightarrow> sigint_action" where
  "init_worker inherited = SIG_IGN"

text \<open>
  What the workers write to the error stream when the interrupt reaches them: nothing
  when they ignore the signal, a traceback each (its first line here) when they do not.
\<close>

definition worker_tracebacks :: "sigint_action \<Rightarrow> int \<Rightarrow> string list" where
  "worker_tracebacks action n =
     (case action of
        SIG_IGN \<Rightarrow> []
      | DefaultIntHandler \<Rightarrow> replicate (nat n) ''Traceback (most recent call last):'')"

text \<open>
  The result list of \<^verbatim>\<open>map_async\<close> has the value of task \<open>i\<close> at position \<open>i\<close>,
  whichever worker ran it and whenever it finished; when a task raised, the exception is
  raised from \<^verbatim>\<open>get\<close> instead (of several, the model takes the first in task order).
\<close>

fun gather :: "(exn + 'a) list \<Rightarrow> exn + 'a list" where
  "gather [] = Inr []"
| "gather (r # rs) =
     (case r of
        Inl e \<Rightarrow> Inl e
      | Inr v \<Rightarrow> (case gather rs of Inl e \<Rightarrow> Inl e | Inr vs \<Rightarrow> Inr (v # vs)))"

text \<open>
  \<^verbatim>\<open>pool.map_async(f, tasks).get(timeout=999999)\<close> in the coordinator: the interrupt,
  when it arrives during the wait, raises \<open>KeyboardInterrupt\<close> there; a wait that
  outlasts the bound raises \<^verbatim>\<open>multiprocessing.TimeoutError\<close>; otherwise the results
  of all tasks.
\<close>

definition map_async_get :: "world \<Rightarrow> ('t \<Rightarrow> exn + 'a) \<Rightarrow> 't list \<Rightarrow> exn + 'a list" where
  "map_async_get w f tasks =
     (case pool_wait w of
        Interrupted \<Rightarrow> Inl KeyboardInterrupt
      | WaitExpired \<Rightarrow> Inl PoolTimeoutError
      | AllDone \<Rightarrow> gather (map f tasks))"

subsection \<open>The scan and its report\<close>

definition header :: "string \<Rightarrow> int \<Rightarrow> bool \<Rightarrow> string list" where
  "header directory num_jobs verbose =
     [''Scanning directory (recursively): '' @ directory,
      ''Using '' @ str_int num_jobs @ '' parallel jobs'']
     @ (if verbose then [''Verbose mode: showing all profiles''] else [])
     @ ['''']"

text \<open>\<^verbatim>\<open>[r for r in results if r is not None]\<close>\<close>

fun not_none :: "'a option list \<Rightarrow> 'a list" where
  "not_none [] = []"
| "not_none (None # results) = not_none results"
| "not_none (Some r # results) = r # not_none results"

definition display_matches :: "(string \<times> string) list \<Rightarrow> string list" where
  "display_matches matches =
     concat (map (\<lambda>(file_path, profile).
                    [''MATCH: '' @ file_path, ''    Format profile: '' @ profile]) matches)"

definition summary :: "nat \<Rightarrow> nat \<Rightarrow> string list" where
  "summary file_count match_count =
     ['''', ''Scan complete:'',
      ''  Files scanned: '' @ str_int (int file_count),
      ''  Matches found: '' @ str_int (int match_count)]
     @ (if match_count = 0
        then [''  No matching MKV files found.'',
              ''  Tip: Use --verbose to see all profiles found'']
        else [])"

definition scan_directory :: "world \<Rightarrow> string \<Rightarrow> bool \<Rightarrow> int option \<Rightarrow> outcome" where
  "scan_directory w directory verbose num_jobs =
     (if \<not> is_dir w directory then
        silent\<lparr>stderr := [''Error: '' @ [apostrophe] @ directory @ [apostrophe]
                           @ '' is not a valid directory.''],
               completion := Exit 1\<rparr>
      else if \<not> access_r w directory then
        silent\<lparr>stderr := [''Error: Cannot read directory: '' @ [apostrophe] @ directory
                           @ [apostrophe]],
               completion := Exit 1\<rparr>
      else
        let n = (case num_jobs of None \<Rightarrow> cpu_count w | Some j \<Rightarrow> j);
            printed = silent\<lparr>stdout := header directory n verbose\<rparr>
        in
        (case rglob_mkv w directory of
           Inl e \<Rightarrow>
             if isinstance e KeyboardInterrupt then
               printed\<lparr>stdout := stdout printed
                          @ [newline # ''Scan interrupted during file listing. Exiting...''],
                        completion := Exit 130\<rparr>
             else printed\<lparr>completion := Uncaught e\<rparr>
         | Inr mkv_files \<Rightarrow>
             let file_count = length mkv_files in
             if file_count = 0 then
               printed\<lparr>stdout := stdout printed @ [''No MKV files found in directory.'']\<rparr>
             else if n < 1 then printed\<lparr>completion := Uncaught ValueError\<rparr>
             else
               let tasks = map (\<lambda>f. (f, verbose)) mkv_files;
                   started = printed\<lparr>pools := [(n, tasks)]\<rparr>
               in
               (case map_async_get w (process_file w) tasks of
                  Inl e \<Rightarrow>
                    if isinstance e KeyboardInterrupt then
                      started\<lparr>stdout := stdout printed
                                 @ [newline # ''Scan interrupted by user (Ctrl+C). Exiting...''],
                               stderr := worker_tracebacks (init_worker DefaultIntHandler) n,
                               completion := Exit 130\<rparr>
                    else started\<lparr>completion := Uncaught e\<rparr>
                | Inr results \<Rightarrow>
                    let matches = not_none (map snd results);
                        match_count = length matches
                    in
                    started\<lparr>diag := map fst results,
                             stdout := stdout printed @ display_matches matches
                               @ summary file_count match_count\<rparr>)))"

subsection \<open>The entry point\<close>

text \<open>The namespace \<^verbatim>\<open>parse_args\<close> returns.\<close>

record args =
  arg_folder :: "string option"
  arg_verbose :: bool
  arg_jobs :: "int option"
  arg_test :: bool

text \<open>
  \<^verbatim>\<open>run_tests\<close> always leaves through \<^verbatim>\<open>sys.exit\<close>; the test runner writes its report
  to the error stream.
\<close>

definition run_tests :: "world \<Rightarrow> outcome" where
  "run_tests w =
     silent\<lparr>stdout := [''Running internal tests...''],
            stderr := test_report w,
            completion := Exit (if tests_successful w then 0 else 1)\<rparr>"

text \<open>\<^verbatim>\<open>not args.folder\<close> holds for a folder that was not given and for the empty string.\<close>

definition main :: "world \<Rightarrow> args \<Rightarrow> outcome" where
  "main w a =
     (if arg_test a then run_tests w
      else
        (case arg_folder a of
           None \<Rightarrow> silent\<lparr>stdout := [help_text w], completion := Exit 1\<rparr>
         | Some d \<Rightarrow>
             if d = [] then silent\<lparr>stdout := [help_text w], completion := Exit 1\<rparr>
             else and_then (check_mediainfo w)
                    (scan_directory w d (arg_verbose a) (arg_jobs a))))"

subsection \<open>Sample worlds\<close>

text \<open>
  A library of five files: one with a target profile, one with a harmless profile, one
  without a video track, one on which the tool hangs and one on which it fails.  The
  variants change one answer of the world each.
\<close>

definition sample_inform :: "string \<Rightarrow> process_outcome" where
  "sample_inform file_path =
     (if file_path = ''/media/a.mkv'' then Completed 0 (''Main 10@L5.1@High'' @ [newline])
      else if file_path = ''/media/b.mkv'' then Completed 0 (''Main@L4@Main'' @ [newline])
      else if file_path = ''/media/c.mkv'' then Completed 0 []
      else if file_path = ''/media/d.mkv'' then Raised TimeoutExpired
      else Completed 1 [])"

definition sample_files :: "string list" where
  "sample_files =
     [''/media/a.mkv'', ''/media/b.mkv'', ''/media/c.mkv'', ''/media/d.mkv'', ''/media/e.mkv'']"

definition sample_world :: world where
  "sample_world =
     \<lparr>is_dir = (\<lambda>d. d = ''/media''),
      access_r = (\<lambda>d. d = ''/media''),
      cpu_count = 4,
      rglob_mkv = (\<lambda>d. Inr sample_files),
      mediainfo_version = Completed 0 ''MediaInfo Command line'',
      mediainfo_inform = sample_inform,
      pool_wait = AllDone,
      tests_successful = True,
      test_report = [],
      help_text = ''usage: mediainfo_format_profile.py [-h] [-v] [-j JOBS] [--test] [folder]''\<rparr>"

definition patched_world :: world where
  "patched_world =
     sample_world\<lparr>mediainfo_inform := (mediainfo_inform sample_world)(''/media/d.mkv'' := Completed 0 [])\<rparr>"

definition sample_args :: args where
  "sample_args =
     \<lparr>arg_folder = Some ''/media'', arg_verbose = False, arg_jobs = Some 2, arg_test = False\<rparr>"

definition empty_world :: world where
  "empty_world = sample_world\<lparr>rglob_mkv := (\<lambda>d. Inr [])\<rparr>"

definition tool_gone_world :: world where
  "tool_gone_world = sample_world\<lparr>mediainfo_inform := (\<lambda>file_path. Raised FileNotFoundError)\<rparr>"

definition no_tool_world :: world where
  "no_tool_world = sample_world\<lparr>mediainfo_version := Raised FileNotFoundError\<rparr>"

definition listing_interrupted_world :: world where
  "listing_interrupted_world = sample_world\<lparr>rglob_mkv := (\<lambda>d. Inl KeyboardInterrupt)\<rparr>"

definition stray_args :: args where
  "stray_args =
     \<lparr>arg_folder = Some ''/nowhere'', arg_verbose = False, arg_jobs = None, arg_test = False\<rparr>"

definition pool_interrupted_world :: world where
  "pool_interrupted_world = sample_world\<lparr>pool_wait := Interrupted\<rparr>"

section \<open>Properties\<close>

subsection \<open>Stripping\<close>

text \<open>
  \<open>strip\<close> takes whitespace, and only whitespace, from the two ends: the text is the
  stripped text between two runs of whitespace, and the stripped text neither begins nor
  ends with whitespace.
\<close>

lemma strip_Nil_iff: "strip s = [] \<longleftrightarrow> (\<forall>c\<in>set s. isspace c)"
proof
  assume "strip s = []"
  then have "dropWhile isspace (rev (dropWhile isspace s)) = []"
    by (simp add: strip_def)
  then have all: "\<forall>x\<in>set (dropWhile isspace s). isspace x"
    by (metis dropWhile_eq_Nil_conv set_rev)
  have "dropWhile isspace s = []"
  proof (rule ccontr)
    assume ne: "dropWhile isspace s \<noteq> []"
    then have "\<not> isspace (hd (dropWhile isspace s))" by (rule hd_dropWhile)
    moreover from ne have "hd (dropWhile isspace s) \<in> set (dropWhile isspace s)" by simp
    ultimately show False using all by blast
  qed
  then show "\<forall>c\<in>set s. isspace c" by (metis dropWhile_eq_Nil_conv)
next
  assume "\<forall>c\<in>set s. isspace c"
  then have "dropWhile isspace s = []" by (metis dropWhile_eq_Nil_conv)
  then show "strip s = []" unfolding strip_def by (simp del: dropWhile_eq_Nil_conv)
qed

lemma strip_parts:
  "\<exists>l r. s = l @ strip s @ r \<and> (\<forall>c\<in>set l. isspace c) \<and> (\<forall>c\<in>set r. isspace c)"
proof -
  let ?t = "dropWhile isspace s"
  have a: "s = takeWhile isspace s @ ?t" by simp
  have b: "rev ?t = takeWhile isspace (rev ?t) @ dropWhile isspace (rev ?t)" by simp
  have "?t = rev (dropWhile isspace (rev ?t)) @ rev (takeWhile isspace (rev ?t))"
    by (metis b rev_append rev_rev_ident)
  then have c: "s = takeWhile isspace s @ strip s @ rev (takeWhile isspace (rev ?t))"
    using a by (simp add: strip_def)
  have d: "\<forall>c\<in>set (takeWhile isspace s). isspace c" by (auto dest: set_takeWhileD)
  have e: "\<forall>c\<in>set (rev (takeWhile isspace (rev ?t))). isspace c" by (auto dest: set_takeWhileD)
  from c d e show ?thesis by blast
qed

lemma strip_ends:
  "strip s \<noteq> [] \<Longrightarrow> \<not> isspace (hd (strip s)) \<and> \<not> isspace (last (strip s))"
proof -
  assume ne: "strip s \<noteq> []"
  let ?t = "dropWhile isspace s"
  let ?u = "dropWhile isspace (rev ?t)"
  from ne have u: "?u \<noteq> []" by (simp add: strip_def)
  then have l: "\<not> isspace (hd ?u)" by (rule hd_dropWhile)
  have "last (strip s) = hd ?u" using u by (simp add: strip_def last_rev)
  with l have 1: "\<not> isspace (last (strip s))" by simp
  have t: "?t \<noteq> []"
  proof
    assume "?t = []"
    then have "?u = []" by (metis dropWhile.simps(1) rev.simps(1))
    with u show False by contradiction
  qed
  then have h: "\<not> isspace (hd ?t)" by (rule hd_dropWhile)
  have "\<exists>r. ?t = strip s @ r"
    by (metis strip_def append_take_drop_id rev_append rev_rev_ident takeWhile_dropWhile_id)
  then obtain r where "?t = strip s @ r" ..
  with ne have "hd ?t = hd (strip s)" by (metis hd_append2)
  with h 1 show ?thesis by simp
qed

subsection \<open>The sample library\<close>

lemma sample_profile_a:
  "get_format_profile sample_world ''/media/a.mkv'' = Inr (Some ''Main 10@L5.1@High'')"
  by (simp add: get_format_profile_def subprocess_run_def sample_world_def sample_inform_def
      strip_def isspace_def newline_def)

lemma sample_profile_b:
  "get_format_profile sample_world ''/media/b.mkv'' = Inr (Some ''Main@L4@Main'')"
  by (simp add: get_format_profile_def subprocess_run_def sample_world_def sample_inform_def
      strip_def isspace_def newline_def)

lemma sample_profile_c: "get_format_profile sample_world ''/media/c.mkv'' = Inr None"
  by (simp add: get_format_profile_def subprocess_run_def sample_world_def sample_inform_def
      strip_def)

subsection \<open>The extractor\<close>

text \<open>
  Claim C2.  For every file path, \<open>get_format_profile\<close> returns the stripped output
  when the process ended with status zero and the stripped output is not empty; None
  when the process ended with status zero and the stripped output is empty; None when
  the status is not zero; None when the 30 second bound passed (\<open>TimeoutExpired\<close>).
\<close>

theorem get_format_profile_results:
  "(mediainfo_inform w p = Completed 0 text \<and> strip text \<noteq> [] \<longrightarrow>
      get_format_profile w p = Inr (Some (strip text))) \<and>
   (mediainfo_inform w p = Completed 0 text \<and> strip text = [] \<longrightarrow>
      get_format_profile w p = Inr None) \<and>
   (mediainfo_inform w p = Completed rc text \<and> rc \<noteq> 0 \<longrightarrow>
      get_format_profile w p = Inr None) \<and>
   (mediainfo_inform w p = Raised TimeoutExpired \<longrightarrow>
      get_format_profile w p = Inr None)"
  by (simp add: get_format_profile_def subprocess_run_def caught_by_def isinstance_def)

theorem get_format_profile_results_witness:
  "get_format_profile sample_world ''/media/a.mkv'' = Inr (Some ''Main 10@L5.1@High'') \<and>
   get_format_profile sample_world ''/media/c.mkv'' = Inr None \<and>
   get_format_profile sample_world ''/media/e.mkv'' = Inr None \<and>
   get_format_profile sample_world ''/media/d.mkv'' = Inr None"
proof -
  have a: "mediainfo_inform sample_world ''/media/a.mkv''
             = Completed 0 (''Main 10@L5.1@High'' @ [newline])"
    by (simp add: sample_world_def sample_inform_def)
  have sa: "strip (''Main 10@L5.1@High'' @ [newline]) = ''Main 10@L5.1@High''"
    by (simp add: strip_def isspace_def newline_def)
  have c: "mediainfo_inform sample_world ''/media/c.mkv'' = Completed 0 []"
    by (simp add: sample_world_def sample_inform_def)
  have sc: "strip [] = []"
    by (simp add: strip_def)
  have e: "mediainfo_inform sample_world ''/media/e.mkv'' = Completed 1 []"
    by (simp add: sample_world_def sample_inform_def)
  have d: "mediainfo_inform sample_world ''/media/d.mkv'' = Raised TimeoutExpired"
    by (simp add: sample_world_def sample_inform_def)
  show ?thesis
    using get_format_profile_results
            [of sample_world "''/media/a.mkv''" "''Main 10@L5.1@High'' @ [newline]" 0]
          get_format_profile_results [of sample_world "''/media/c.mkv''" "[]" 0]
          get_format_profile_results [of sample_world "''/media/e.mkv''" "[]" 1]
          get_format_profile_results [of sample_world "''/media/d.mkv''" "[]" 0]
          a sa c sc e d
    by simp
qed

subsection \<open>The classifier\<close>

text \<open>
  Claim C1.  For every file path and every result of the extractor: when the result is
  None, \<open>process_file\<close> returns None; when it is a string equal to a member of
  \<open>TARGET_PROFILES\<close> (equality of strings, character by character), \<open>process_file\<close>
  returns the pair of the path and the string; when it is any other string,
  \<open>process_file\<close> returns None.
\<close>

theorem process_file_classification:
  "(get_format_profile w p = Inr None \<longrightarrow> returned (process_file w (p, v)) = Inr None) \<and>
   (\<forall>s. get_format_profile w p = Inr (Some s) \<longrightarrow>
      (s \<in> set TARGET_PROFILES \<longrightarrow> returned (process_file w (p, v)) = Inr (Some (p, s))) \<and>
      (s \<notin> set TARGET_PROFILES \<longrightarrow> returned (process_file w (p, v)) = Inr None))"
  by (simp add: process_file_def returned_def)

theorem process_file_classification_witness:
  "returned (process_file sample_world (''/media/a.mkv'', False))
     = Inr (Some (''/media/a.mkv'', ''Main 10@L5.1@High'')) \<and>
   returned (process_file sample_world (''/media/b.mkv'', False)) = Inr None \<and>
   returned (process_file sample_world (''/media/c.mkv'', False)) = Inr None"
proof -
  have a: "''Main 10@L5.1@High'' \<in> set TARGET_PROFILES"
    by (simp add: TARGET_PROFILES_def)
  have b: "''Main@L4@Main'' \<notin> set TARGET_PROFILES"
    by (simp add: TARGET_PROFILES_def)
  show ?thesis
    using process_file_classification [of sample_world "''/media/a.mkv''" False]
          process_file_classification [of sample_world "''/media/b.mkv''" False]
          process_file_classification [of sample_world "''/media/c.mkv''" False]
          sample_profile_a sample_profile_b sample_profile_c a b
    by simp
qed


subsection \<open>Decimal numerals\<close>

text \<open>\<open>str_nat\<close> writes the decimal digits of its argument: reading them back gives it.\<close>

lemma digit_value: "k < 10 \<Longrightarrow> of_char (''0123456789'' ! k) = 48 + k"
proof -
  assume "k < 10"
  then have "k = 0 \<or> k = 1 \<or> k = 2 \<or> k = 3 \<or> k = 4 \<or> k = 5 \<or> k = 6 \<or> k = 7 \<or> k = 8 \<or> k = 9"
    by arith
  then show ?thesis by (elim disjE) simp_all
qed

lemma str_nat_value:
  "foldl (\<lambda>a c. 10 * a + (of_char c - 48)) 0 (str_nat n) = n"
proof (induction n rule: str_nat.induct)
  case (1 n)
  show ?case
  proof (cases "n < 10")
    case True
    then show ?thesis by (subst str_nat.simps) (simp add: digit_value)
  next
    case False
    then have "foldl (\<lambda>a c. 10 * a + (of_char c - 48)) 0 (str_nat (n div 10)) = n div 10"
      using "1.IH" by simp
    moreover have "of_char (''0123456789'' ! (n mod 10)) = 48 + n mod 10"
      by (rule digit_value) simp
    ultimately show ?thesis
      using False by (subst str_nat.simps) simp
  qed
qed

subsection \<open>The sample library, continued\<close>

lemma sample_profile_d: "get_format_profile sample_world ''/media/d.mkv'' = Inr None"
  by (simp add: get_format_profile_def subprocess_run_def sample_world_def sample_inform_def
      caught_by_def isinstance_def)

lemma sample_profile_e: "get_format_profile sample_world ''/media/e.mkv'' = Inr None"
  by (simp add: get_format_profile_def subprocess_run_def sample_world_def sample_inform_def)

lemmas sample_profiles =
  sample_profile_a sample_profile_b sample_profile_c sample_profile_d sample_profile_e

lemma sample_returns: "\<forall>f\<in>set sample_files. \<exists>r. get_format_profile sample_world f = Inr r"
  by (simp add: sample_files_def sample_profiles)

lemma sample_matches:
  "[(f, s). f \<leftarrow> sample_files,
            s \<leftarrow> (case get_format_profile sample_world f of Inr (Some s) \<Rightarrow> [s] | _ \<Rightarrow> []),
            s \<in> set TARGET_PROFILES]
     = [(''/media/a.mkv'', ''Main 10@L5.1@High'')]"
  by (simp add: sample_files_def sample_profiles TARGET_PROFILES_def)

lemma sample_count:
  "length (filter (\<lambda>f. \<exists>s\<in>set TARGET_PROFILES.
                          get_format_profile sample_world f = Inr (Some s)) sample_files) = 1"
  by (simp add: sample_files_def sample_profiles TARGET_PROFILES_def)

lemma sample_root: "is_dir sample_world ''/media''" "access_r sample_world ''/media''"
  by (simp_all add: sample_world_def)

lemma sample_listing: "rglob_mkv sample_world ''/media'' = Inr sample_files" "sample_files \<noteq> []"
  by (simp_all add: sample_world_def sample_files_def)

lemma sample_wait: "pool_wait sample_world = AllDone"
  by (simp add: sample_world_def)

subsection \<open>A scan that runs to its end\<close>

text \<open>
  When every call of the extractor returns, every task of the pool returns, and the
  matches the coordinator keeps are, in the order of the listing, the files whose
  profile is a target, each with its profile.
\<close>

lemma process_file_returned:
  "get_format_profile w f = Inr r \<Longrightarrow>
   process_file w (f, v) =
     Inr (if v then (case r of
                       None \<Rightarrow> [''SKIP: '' @ f @ '' (no video track or cannot read)'']
                     | Some s \<Rightarrow> [''Checking: '' @ f,
                                  ''    Profile: '' @ [apostrophe] @ s @ [apostrophe]])
          else [],
          case r of
            None \<Rightarrow> None
          | Some s \<Rightarrow> if s \<in> set TARGET_PROFILES then Some (f, s) else None)"
  by (simp add: process_file_def split: option.split)

lemma gather_returned:
  "(\<forall>t\<in>set ts. f t = Inr (g t)) \<Longrightarrow> gather (map f ts) = Inr (map g ts)"
  by (induction ts) simp_all

lemma gather_Inr_length: "gather rs = Inr vs \<Longrightarrow> length vs = length rs"
  by (induction rs arbitrary: vs) (auto split: sum.splits)

lemma gather_process_files:
  assumes "\<forall>f\<in>set files. \<exists>r. get_format_profile w f = Inr r"
  shows "\<exists>results. gather (map (process_file w) (map (\<lambda>f. (f, v)) files)) = Inr results \<and>
           length results = length files \<and>
           not_none (map snd results) =
             [(f, s). f \<leftarrow> files,
                      s \<leftarrow> (case get_format_profile w f of Inr (Some s) \<Rightarrow> [s] | _ \<Rightarrow> []),
                      s \<in> set TARGET_PROFILES]"
  using assms
proof (induction files)
  case Nil
  then show ?case by simp
next
  case (Cons f files)
  then obtain results where
    ih: "gather (map (process_file w) (map (\<lambda>f. (f, v)) files)) = Inr results"
        "length results = length files"
        "not_none (map snd results) =
           [(f, s). f \<leftarrow> files,
                    s \<leftarrow> (case get_format_profile w f of Inr (Some s) \<Rightarrow> [s] | _ \<Rightarrow> []),
                    s \<in> set TARGET_PROFILES]"
    by auto
  from Cons.prems obtain r where r: "get_format_profile w f = Inr r" by auto
  show ?case
    using ih r by (cases r) (simp_all add: process_file_returned)
qed

lemma scan_directory_completed:
  assumes root: "is_dir w d" "access_r w d"
    and listing: "rglob_mkv w d = Inr files" "files \<noteq> []"
    and jobs: "n = (case j of None \<Rightarrow> cpu_count w | Some k \<Rightarrow> k)" "1 \<le> n"
    and wait: "pool_wait w = AllDone"
    and returns: "\<forall>f\<in>set files. \<exists>r. get_format_profile w f = Inr r"
    and M: "M = [(f, s). f \<leftarrow> files,
                  s \<leftarrow> (case get_format_profile w f of Inr (Some s) \<Rightarrow> [s] | _ \<Rightarrow> []),
                  s \<in> set TARGET_PROFILES]"
  shows "stdout (scan_directory w d v j)
           = header d n v @ display_matches M @ summary (length files) (length M) \<and>
         stderr (scan_directory w d v j) = [] \<and>
         pools (scan_directory w d v j) = [(n, map (\<lambda>f. (f, v)) files)] \<and>
         length (diag (scan_directory w d v j)) = length files \<and>
         completion (scan_directory w d v j) = Returned"
proof -
  from gather_process_files [OF returns, of v] obtain results where
    res: "gather (map (process_file w) (map (\<lambda>f. (f, v)) files)) = Inr results"
         "length results = length files"
         "not_none (map snd results) = M"
    unfolding M by blast
  from jobs have n: "\<not> n < 1" by simp
  show ?thesis
    using root listing n wait res jobs(1)
    by (simp add: scan_directory_def map_async_get_def silent_def Let_def)
qed

lemma match_paths:
  "map fst [(f, s). f \<leftarrow> files,
                    s \<leftarrow> (case get_format_profile w f of Inr (Some s) \<Rightarrow> [s] | _ \<Rightarrow> []),
                    s \<in> set TARGET_PROFILES]
     = filter (\<lambda>f. \<exists>s\<in>set TARGET_PROFILES. get_format_profile w f = Inr (Some s)) files"
  by (induction files) (auto split: sum.splits option.splits)

lemma count_list_filter_le: "count_list (filter P xs) x \<le> count_list xs x"
  by (induction xs) auto


text \<open>
  Claim C4, as amended.  For every list of candidate files that is not empty and every
  assignment of extraction results to them (valid readable root, at least one worker,
  no interrupt): each candidate file yields at most one match record; the number of
  match records is the number of files whose extraction gave a string of
  \<open>TARGET_PROFILES\<close>; the report prints that number as the matches found and the
  length of the listing as the files scanned.
\<close>

theorem scan_counts:
  assumes root: "is_dir w d" "access_r w d"
    and listing: "rglob_mkv w d = Inr files" "files \<noteq> []"
    and jobs: "n = (case j of None \<Rightarrow> cpu_count w | Some k \<Rightarrow> k)" "1 \<le> n"
    and wait: "pool_wait w = AllDone"
    and returns: "\<forall>f\<in>set files. \<exists>r. get_format_profile w f = Inr r"
    and M: "M = [(f, s). f \<leftarrow> files,
                  s \<leftarrow> (case get_format_profile w f of Inr (Some s) \<Rightarrow> [s] | _ \<Rightarrow> []),
                  s \<in> set TARGET_PROFILES]"
    and k: "k = length (filter (\<lambda>f. \<exists>s\<in>set TARGET_PROFILES.
                                   get_format_profile w f = Inr (Some s)) files)"
  shows "stdout (scan_directory w d v j)
           = header d n v @ display_matches M
             @ [[], ''Scan complete:'',
                ''  Files scanned: '' @ str_int (int (length files)),
                ''  Matches found: '' @ str_int (int k)]
             @ (if k = 0 then [''  No matching MKV files found.'',
                               ''  Tip: Use --verbose to see all profiles found'']
                else []) \<and>
         length M = k \<and>
         (\<forall>f. count_list (map fst M) f \<le> count_list files f)"
proof -
  have paths: "map fst M
      = filter (\<lambda>f. \<exists>s\<in>set TARGET_PROFILES. get_format_profile w f = Inr (Some s)) files"
    unfolding M by (rule match_paths)
  then have len: "length M = k"
    unfolding k by (metis length_map)
  have cnt: "\<forall>f. count_list (map fst M) f \<le> count_list files f"
    unfolding paths by (simp add: count_list_filter_le)
  have "stdout (scan_directory w d v j)
          = header d n v @ display_matches M @ summary (length files) (length M)"
    using scan_directory_completed [OF root listing jobs wait returns M] by simp
  then show ?thesis
    using len cnt by (simp add: summary_def)
qed

theorem scan_counts_witness:
  "stdout (scan_directory sample_world ''/media'' False (Some 2))
     = [''Scanning directory (recursively): /media'', ''Using 2 parallel jobs'', [],
        ''MATCH: /media/a.mkv'', ''    Format profile: Main 10@L5.1@High'',
        [], ''Scan complete:'', ''  Files scanned: 5'', ''  Matches found: 1'']"
proof -
  have jobs: "(2::int) = (case Some 2 of None \<Rightarrow> cpu_count sample_world | Some k \<Rightarrow> k)"
             "(1::int) \<le> 2"
    by simp_all
  have "length sample_files = 5" by (simp add: sample_files_def)
  then show ?thesis
    using scan_counts [OF sample_root sample_listing jobs sample_wait sample_returns
               sample_matches [symmetric] sample_count [symmetric], of False]
    by (simp add: header_def display_matches_def str_int_def)
qed

text \<open>
  For the empty listing the statement fails as the specification words it: the scan
  leaves before the report, and no count of scanned files is printed.
\<close>

theorem empty_listing_reports_no_counts:
  "''  Files scanned: 0'' \<notin> set (stdout (scan_directory empty_world ''/media'' True None))"
  by (simp add: scan_directory_def empty_world_def sample_world_def silent_def header_def
      str_int_def)



subsection \<open>Failures of the external tool\<close>

lemma swallowed_is_absent:
  assumes "(\<exists>rc text. mediainfo_inform w p = Completed rc text \<and> rc \<noteq> 0) \<or>
           (\<exists>e. mediainfo_inform w p = Raised e \<and> isinstance e SubprocessError)"
  shows "get_format_profile w p = Inr None"
  using assms
  by (auto simp: get_format_profile_def subprocess_run_def caught_by_def)

lemma empty_output_is_absent:
  "mediainfo_inform w p = Completed 0 [] \<Longrightarrow> get_format_profile w p = Inr None"
  by (simp add: get_format_profile_def subprocess_run_def strip_def)

lemma scan_directory_cong:
  assumes "is_dir w' = is_dir w" "access_r w' = access_r w" "cpu_count w' = cpu_count w"
    "rglob_mkv w' = rglob_mkv w" "pool_wait w' = pool_wait w"
    "\<forall>f. get_format_profile w' f = get_format_profile w f"
  shows "scan_directory w' d v j = scan_directory w d v j"
proof -
  have pf: "process_file w' = process_file w"
    using assms(6) by (auto simp: process_file_def fun_eq_iff)
  show ?thesis
    unfolding scan_directory_def map_async_get_def assms(1-5) pf by (rule refl)
qed

text \<open>
  Claim C3, as amended.  For every file path, a non-zero exit status, a timeout and any
  other exception of class \<open>SubprocessError\<close> make the extractor return None instead
  of raising; \<open>process_file\<close> then does exactly what it does for a file on which the
  tool succeeded with empty output, and so does the whole scan: the failure of one file
  does not abort it.
\<close>

theorem swallowed_failures_are_absent:
  assumes failure:
      "(\<exists>rc text. mediainfo_inform w p = Completed rc text \<and> rc \<noteq> 0) \<or>
       (\<exists>e. mediainfo_inform w p = Raised e \<and> isinstance e SubprocessError)"
    and w': "w' = w\<lparr>mediainfo_inform := (mediainfo_inform w)(p := Completed 0 [])\<rparr>"
  shows "get_format_profile w p = Inr None \<and>
         process_file w (p, v) = process_file w' (p, v) \<and>
         scan_directory w d v j = scan_directory w' d v j"
proof -
  have a: "get_format_profile w p = Inr None"
    using failure by (rule swallowed_is_absent)
  have b: "get_format_profile w' p = Inr None"
    by (rule empty_output_is_absent) (simp add: w')
  have c: "\<forall>f. get_format_profile w' f = get_format_profile w f"
  proof
    fix f
    show "get_format_profile w' f = get_format_profile w f"
    proof (cases "f = p")
      case True
      with a b show ?thesis by simp
    next
      case False
      then show ?thesis by (simp add: get_format_profile_def w')
    qed
  qed
  have "scan_directory w' d v j = scan_directory w d v j"
    by (rule scan_directory_cong) (use c in \<open>simp_all add: w'\<close>)
  moreover have "process_file w' (p, v) = process_file w (p, v)"
    using c by (simp add: process_file_def)
  ultimately show ?thesis using a by simp
qed

theorem swallowed_failures_are_absent_witness:
  "get_format_profile sample_world ''/media/d.mkv'' = Inr None \<and>
   process_file sample_world (''/media/d.mkv'', True)
     = process_file patched_world (''/media/d.mkv'', True) \<and>
   scan_directory sample_world ''/media'' True None
     = scan_directory patched_world ''/media'' True None"
proof -
  have "mediainfo_inform sample_world ''/media/d.mkv'' = Raised TimeoutExpired"
    by (simp add: sample_world_def sample_inform_def)
  moreover have "isinstance TimeoutExpired SubprocessError"
    by (simp add: isinstance_def)
  ultimately have
    "(\<exists>rc text. mediainfo_inform sample_world ''/media/d.mkv'' = Completed rc text \<and> rc \<noteq> 0) \<or>
     (\<exists>e. mediainfo_inform sample_world ''/media/d.mkv'' = Raised e \<and>
          isinstance e SubprocessError)"
    by simp
  from swallowed_failures_are_absent [OF this patched_world_def] show ?thesis .
qed

text \<open>
  For a tool that cannot be started the statement fails as the specification words it:
  \<open>FileNotFoundError\<close> is no \<open>SubprocessError\<close>, leaves the extractor and ends the
  scan.
\<close>

theorem missing_tool_propagates:
  "get_format_profile tool_gone_world ''/media/a.mkv'' = Inl FileNotFoundError \<and>
   completion (scan_directory tool_gone_world ''/media'' False (Some 2))
     = Uncaught FileNotFoundError"
  by (simp add: get_format_profile_def subprocess_run_def caught_by_def isinstance_def
      tool_gone_world_def sample_world_def sample_files_def scan_directory_def
      map_async_get_def process_file_def silent_def)

subsection \<open>The entry point\<close>

lemma check_mediainfo_passes:
  "mediainfo_version w = Completed 0 t \<Longrightarrow> check_mediainfo w = silent"
  by (simp add: check_mediainfo_def subprocess_run_def)

lemma check_mediainfo_fails:
  assumes "(\<exists>e. mediainfo_version w = Raised e \<and> (e = FileNotFoundError \<or> e = CalledProcessError)) \<or>
           (\<exists>rc t. mediainfo_version w = Completed rc t \<and> rc \<noteq> 0)"
  shows "check_mediainfo w =
           silent\<lparr>stderr := [''Error: mediainfo command not found. Please install MediaInfo.''],
                  completion := Exit 1\<rparr>"
  using assms
  by (auto simp: check_mediainfo_def subprocess_run_def caught_by_def isinstance_def)

lemma and_then_silent: "and_then silent r = r"
  by (simp add: and_then_def silent_def)

lemma main_scans:
  "\<not> arg_test a \<Longrightarrow> arg_folder a = Some d \<Longrightarrow> d \<noteq> [] \<Longrightarrow> mediainfo_version w = Completed 0 t \<Longrightarrow>
   main w a = scan_directory w d (arg_verbose a) (arg_jobs a)"
  by (simp add: main_def check_mediainfo_passes and_then_silent)

text \<open>
  Claim C5.  For every invocation that asks for a scan (no \<^verbatim>\<open>--test\<close>, a folder given):
  when the tool is missing (the version call raises \<open>FileNotFoundError\<close> or ends with a
  non-zero status), or when the tool is there and the root is not a directory or not
  readable, the program writes one message to the error stream, nothing to the
  standard output, creates no pool, and exits with status 1.
\<close>

theorem precondition_errors_are_fatal:
  assumes scan_mode: "\<not> arg_test a" "arg_folder a = Some d" "d \<noteq> []"
    and broken:
      "(\<exists>e. mediainfo_version w = Raised e \<and> (e = FileNotFoundError \<or> e = CalledProcessError)) \<or>
       (\<exists>rc t. mediainfo_version w = Completed rc t \<and> rc \<noteq> 0) \<or>
       (\<exists>t. mediainfo_version w = Completed 0 t) \<and> (\<not> is_dir w d \<or> \<not> access_r w d)"
  shows "stdout (main w a) = [] \<and>
         stderr (main w a) =
           [if \<exists>t. mediainfo_version w = Completed 0 t
            then if \<not> is_dir w d
                 then ''Error: '' @ [apostrophe] @ d @ [apostrophe] @ '' is not a valid directory.''
                 else ''Error: Cannot read directory: '' @ [apostrophe] @ d @ [apostrophe]
            else ''Error: mediainfo command not found. Please install MediaInfo.''] \<and>
         pools (main w a) = [] \<and> diag (main w a) = [] \<and>
         completion (main w a) = Exit 1 \<and>
         exit_status (completion (main w a)) = Some 1"
proof (cases "\<exists>t. mediainfo_version w = Completed 0 t")
  case True
  then obtain t where t: "mediainfo_version w = Completed 0 t" ..
  with broken have root: "\<not> is_dir w d \<or> \<not> access_r w d" by auto
  have "main w a = scan_directory w d (arg_verbose a) (arg_jobs a)"
    using scan_mode t by (rule main_scans)
  then show ?thesis
    using root True by (auto simp: scan_directory_def silent_def)
next
  case False
  with broken have
    "(\<exists>e. mediainfo_version w = Raised e \<and> (e = FileNotFoundError \<or> e = CalledProcessError)) \<or>
     (\<exists>rc t. mediainfo_version w = Completed rc t \<and> rc \<noteq> 0)"
    by blast
  then have "check_mediainfo w =
           silent\<lparr>stderr := [''Error: mediainfo command not found. Please install MediaInfo.''],
                  completion := Exit 1\<rparr>"
    by (rule check_mediainfo_fails)
  then show ?thesis
    using scan_mode False by (simp add: main_def and_then_def silent_def)
qed

theorem precondition_errors_are_fatal_witness:
  "main no_tool_world sample_args =
     \<lparr>stdout = [],
      stderr = [''Error: mediainfo command not found. Please install MediaInfo.''],
      pools = [], diag = [], completion = Exit 1\<rparr> \<and>
   main sample_world stray_args =
     \<lparr>stdout = [],
      stderr = [''Error: '' @ [apostrophe] @ ''/nowhere'' @ [apostrophe]
                @ '' is not a valid directory.''],
      pools = [], diag = [], completion = Exit 1\<rparr>"
proof -
  have m1: "\<not> arg_test sample_args" "arg_folder sample_args = Some ''/media''" "''/media'' \<noteq> []"
    by (simp_all add: sample_args_def)
  have v1: "mediainfo_version no_tool_world = Raised FileNotFoundError"
    by (simp add: no_tool_world_def)
  then have b1:
    "(\<exists>e. mediainfo_version no_tool_world = Raised e \<and>
          (e = FileNotFoundError \<or> e = CalledProcessError)) \<or>
     (\<exists>rc t. mediainfo_version no_tool_world = Completed rc t \<and> rc \<noteq> 0) \<or>
     (\<exists>t. mediainfo_version no_tool_world = Completed 0 t) \<and>
       (\<not> is_dir no_tool_world ''/media'' \<or> \<not> access_r no_tool_world ''/media'')"
    by simp
  have m2: "\<not> arg_test stray_args" "arg_folder stray_args = Some ''/nowhere''" "''/nowhere'' \<noteq> []"
    by (simp_all add: stray_args_def)
  have v2: "mediainfo_version sample_world = Completed 0 ''MediaInfo Command line''"
    by (simp add: sample_world_def)
  have d2: "\<not> is_dir sample_world ''/nowhere''"
    by (simp add: sample_world_def)
  from v2 d2 have b2:
    "(\<exists>e. mediainfo_version sample_world = Raised e \<and>
          (e = FileNotFoundError \<or> e = CalledProcessError)) \<or>
     (\<exists>rc t. mediainfo_version sample_world = Completed rc t \<and> rc \<noteq> 0) \<or>
     (\<exists>t. mediainfo_version sample_world = Completed 0 t) \<and>
       (\<not> is_dir sample_world ''/nowhere'' \<or> \<not> access_r sample_world ''/nowhere'')"
    by simp
  show ?thesis
    using precondition_errors_are_fatal [OF m1 b1] precondition_errors_are_fatal [OF m2 b2] v1 v2 d2
    by (simp add: outcome.equality)
qed

text \<open>
  Claim C6, as amended.  For every scan of a valid readable root with no file of the
  extension, the program prints that no MKV files were found, creates no worker pool and
  returns normally (exit status 0); it prints no summary: neither the line
  \<^verbatim>\<open>Scan complete:\<close> nor a count of scanned files or of matches.
\<close>

theorem no_files_no_summary:
  assumes scan_mode: "\<not> arg_test a" "arg_folder a = Some d" "d \<noteq> []"
    and tool: "mediainfo_version w = Completed 0 t"
    and root: "is_dir w d" "access_r w d"
    and listing: "rglob_mkv w d = Inr []"
    and jobs: "n = (case arg_jobs a of None \<Rightarrow> cpu_count w | Some k \<Rightarrow> k)"
  shows "stdout (main w a)
           = header d n (arg_verbose a) @ [''No MKV files found in directory.''] \<and>
         stderr (main w a) = [] \<and>
         pools (main w a) = [] \<and>
         completion (main w a) = Returned \<and>
         exit_status (completion (main w a)) = Some 0 \<and>
         ''Scan complete:'' \<notin> set (stdout (main w a)) \<and>
         filter (prefix ''  Files scanned: '') (stdout (main w a)) = [] \<and>
         filter (prefix ''  Matches found: '') (stdout (main w a)) = []"
proof -
  have "main w a = scan_directory w d (arg_verbose a) (arg_jobs a)"
    using scan_mode tool by (rule main_scans)
  then have "main w a =
      silent\<lparr>stdout := header d n (arg_verbose a) @ [''No MKV files found in directory.'']\<rparr>"
    using root listing jobs by (simp add: scan_directory_def)
  then show ?thesis
    by (simp add: silent_def header_def)
qed

theorem no_files_no_summary_witness:
  "main empty_world sample_args =
     \<lparr>stdout = [''Scanning directory (recursively): /media'', ''Using 2 parallel jobs'', [],
                ''No MKV files found in directory.''],
      stderr = [], pools = [], diag = [], completion = Returned\<rparr>"
proof -
  have m: "\<not> arg_test sample_args" "arg_folder sample_args = Some ''/media''" "''/media'' \<noteq> []"
    by (simp_all add: sample_args_def)
  have t: "mediainfo_version empty_world = Completed 0 ''MediaInfo Command line''"
    by (simp add: empty_world_def sample_world_def)
  have r: "is_dir empty_world ''/media''" "access_r empty_world ''/media''"
    by (simp_all add: empty_world_def sample_world_def)
  have l: "rglob_mkv empty_world ''/media'' = Inr []"
    by (simp add: empty_world_def)
  have j: "(2::int) = (case arg_jobs sample_args of None \<Rightarrow> cpu_count empty_world | Some k \<Rightarrow> k)"
    by (simp add: sample_args_def)
  have "diag (main empty_world sample_args) = []"
    using main_scans [OF m t] r l
    by (simp add: scan_directory_def silent_def)
  then show ?thesis
    using no_files_no_summary [OF m t r l j]
    by (simp add: outcome.equality header_def str_int_def sample_args_def)
qed

text \<open>
  The statement fails as the specification words it: with no file found, no summary
  with zero counts is printed.
\<close>

theorem no_files_prints_no_summary:
  "''Scan complete:'' \<notin> set (stdout (main empty_world sample_args)) \<and>
   ''  Files scanned: 0'' \<notin> set (stdout (main empty_world sample_args)) \<and>
   ''  Matches found: 0'' \<notin> set (stdout (main empty_world sample_args))"
  by (simp add: main_def sample_args_def check_mediainfo_def subprocess_run_def and_then_def
      scan_directory_def empty_world_def sample_world_def silent_def header_def str_int_def)

subsection \<open>The number of workers\<close>






text \<open>
  Claim C9.  For every scan of a valid readable root that the interrupt reaches, during
  the listing of the files or during the wait for the pool, the coordinator prints the
  header and then exactly one interruption notice, nothing on the error stream (the
  workers ignore the signal), no match and no summary, and exits with status 130, which
  is neither 0 nor 1.
\<close>

theorem interrupt_exits_130:
  assumes root: "is_dir w d" "access_r w d"
    and jobs: "n = (case j of None \<Rightarrow> cpu_count w | Some k \<Rightarrow> k)"
    and interrupted:
      "rglob_mkv w d = Inl KeyboardInterrupt \<or>
       (\<exists>files. rglob_mkv w d = Inr files \<and> files \<noteq> [] \<and> 1 \<le> n \<and> pool_wait w = Interrupted)"
  shows "stdout (scan_directory w d v j)
           = header d n v
             @ [if rglob_mkv w d = Inl KeyboardInterrupt
                then newline # ''Scan interrupted during file listing. Exiting...''
                else newline # ''Scan interrupted by user (Ctrl+C). Exiting...''] \<and>
         length (filter (prefix (newline # ''Scan interrupted''))
                   (stdout (scan_directory w d v j))) = 1 \<and>
         stderr (scan_directory w d v j) = [] \<and>
         completion (scan_directory w d v j) = Exit 130 \<and>
         exit_status (completion (scan_directory w d v j)) = Some 130 \<and>
         exit_status (completion (scan_directory w d v j)) \<notin> {Some 0, Some 1} \<and>
         filter (prefix ''MATCH: '') (stdout (scan_directory w d v j)) = [] \<and>
         ''Scan complete:'' \<notin> set (stdout (scan_directory w d v j))"
proof -
  have out: "stdout (scan_directory w d v j)
           = header d n v
             @ [if rglob_mkv w d = Inl KeyboardInterrupt
                then newline # ''Scan interrupted during file listing. Exiting...''
                else newline # ''Scan interrupted by user (Ctrl+C). Exiting...'']"
    and rest: "stderr (scan_directory w d v j) = []"
              "completion (scan_directory w d v j) = Exit 130"
    using root jobs interrupted
    by (auto simp: scan_directory_def silent_def isinstance_def map_async_get_def
        worker_tracebacks_def init_worker_def Let_def)
  show ?thesis
    unfolding out rest by (simp add: header_def newline_def)
qed

theorem interrupt_exits_130_witness:
  "stdout (scan_directory listing_interrupted_world ''/media'' False (Some 2))
     = [''Scanning directory (recursively): /media'', ''Using 2 parallel jobs'', [],
        newline # ''Scan interrupted during file listing. Exiting...''] \<and>
   completion (scan_directory listing_interrupted_world ''/media'' False (Some 2)) = Exit 130 \<and>
   stdout (scan_directory pool_interrupted_world ''/media'' False (Some 2))
     = [''Scanning directory (recursively): /media'', ''Using 2 parallel jobs'', [],
        newline # ''Scan interrupted by user (Ctrl+C). Exiting...''] \<and>
   completion (scan_directory pool_interrupted_world ''/media'' False (Some 2)) = Exit 130"
proof -
  have r1: "is_dir listing_interrupted_world ''/media''"
           "access_r listing_interrupted_world ''/media''"
    by (simp_all add: listing_interrupted_world_def sample_world_def)
  have r2: "is_dir pool_interrupted_world ''/media''"
           "access_r pool_interrupted_world ''/media''"
    by (simp_all add: pool_interrupted_world_def sample_world_def)
  have j1: "(2::int) = (case Some 2 of None \<Rightarrow> cpu_count listing_interrupted_world | Some k \<Rightarrow> k)"
    by simp
  have j2: "(2::int) = (case Some 2 of None \<Rightarrow> cpu_count pool_interrupted_world | Some k \<Rightarrow> k)"
    by simp
  have l1: "rglob_mkv listing_interrupted_world ''/media'' = Inl KeyboardInterrupt"
    by (simp add: listing_interrupted_world_def)
  then have i1:
    "rglob_mkv listing_interrupted_world ''/media'' = Inl KeyboardInterrupt \<or>
     (\<exists>files. rglob_mkv listing_interrupted_world ''/media'' = Inr files \<and> files \<noteq> [] \<and>
        (1::int) \<le> 2 \<and> pool_wait listing_interrupted_world = Interrupted)"
    by simp
  have l2: "rglob_mkv pool_interrupted_world ''/media'' = Inr sample_files"
    by (simp add: pool_interrupted_world_def sample_world_def)
  have "sample_files \<noteq> []" "pool_wait pool_interrupted_world = Interrupted"
    by (simp_all add: sample_files_def pool_interrupted_world_def)
  with l2 have i2:
    "rglob_mkv pool_interrupted_world ''/media'' = Inl KeyboardInterrupt \<or>
     (\<exists>files. rglob_mkv pool_interrupted_world ''/media'' = Inr files \<and> files \<noteq> [] \<and>
        (1::int) \<le> 2 \<and> pool_wait pool_interrupted_world = Interrupted)"
    by simp
  show ?thesis
    using interrupt_exits_130 [OF r1 j1 i1, of False] interrupt_exits_130 [OF r2 j2 i2, of False] l1 l2
    by (simp add: header_def str_int_def)
qed

end
